theory Spec2Isabelle
  imports Complex_Main
begin

section \<open>The comparison notebook\<close>

text \<open>
  The program is \<^verbatim>\<open>notebooks/03_evaluate/comparison.ipynb\<close>: a Jupyter notebook whose
  code cells set up a scratch directory and a configuration, run every recommender
  notebook on every data size through papermill, collect one row of metrics per run in
  \<^verbatim>\<open>df_results\<close>, and finally remove the scratch directory. The recommender notebooks
  and papermill are outside the program; they appear below as a parameter.
\<close>

subsection \<open>Values, errors, rows\<close>

text \<open>
  The scalars that occur in a row: the strings \<^verbatim>\<open>data_size\<close> and \<^verbatim>\<open>algorithm\<close>, the
  integer \<^verbatim>\<open>k\<close>, the floats recorded by a notebook, and \<^verbatim>\<open>np.nan\<close>.
\<close>

datatype pyval = Text string | Integer int | Number real | NaN

text \<open>
  The exceptions that the cells can raise. \<open>KeyError\<close> comes from \<^verbatim>\<open>notebooks[algorithm]\<close>
  and from \<^verbatim>\<open>df_eval[name]\<close>; \<open>AttributeError\<close> from \<^verbatim>\<open>.item()\<close> on a selection that is
  not a single column; \<open>ValueError\<close> is the notebook's own
  \<^verbatim>\<open>raise ValueError("{} is not a recognized algorithm".format(algorithm))\<close>;
  \<open>PapermillError\<close> is whatever \<^verbatim>\<open>pm.execute_notebook\<close> or \<^verbatim>\<open>pm.read_notebook\<close> raised;
  \<open>NameError\<close> is the lookup of an unbound global name; \<open>OSError\<close> carries its errno.
\<close>

datatype error =
    KeyError string
  | AttributeError string
  | ValueError string
  | PapermillError string
  | NameError string
  | OSError int

text \<open>
  A row of \<^verbatim>\<open>nb.dataframe\<close>, the frame papermill builds from an executed notebook: one
  row per parameter or recorded value, with the columns name, value, type, filename.
\<close>

record nb_record =
  rec_name :: string
  rec_value :: pyval
  rec_type :: string
  rec_filename :: string

text \<open>A one-row data frame: its columns, in order, each with its single value.\<close>

type_synonym frame = "(string \<times> pyval) list"

subsection \<open>Global set-up parameters\<close>

definition k :: int where
  "k = 10"

definition data_sizes :: "string list" where
  "data_sizes = [''100k'', ''1m'']"

definition algorithms :: "string list" where
  "algorithms = [''als'', ''sar'', ''svd'', ''fast'', ''ncf'', ''rbm'']"

definition notebooks :: "string \<rightharpoonup> string" where
  "notebooks = map_of
     [(''als'', ''../00_quick_start/als_movielens.ipynb''),
      (''sar'', ''../00_quick_start/sar_movielens.ipynb''),
      (''svd'', ''../02_model/surprise_svd_deep_dive.ipynb''),
      (''fast'', ''../00_quick_start/fastai_movielens.ipynb''),
      (''ncf'', ''../00_quick_start/ncf_movielens.ipynb''),
      (''rbm'', ''../00_quick_start/rbm_movielens.ipynb'')]"

subsection \<open>Reading the records of an executed notebook\<close>

text \<open>
  \<^verbatim>\<open>x.lower()\<close> on a column name. Characters are bytes here, and the letters changed
  are the ASCII capitals; every other character is kept.
\<close>

definition lower_char :: "char \<Rightarrow> char" where
  "lower_char c =
     (case map_of (zip ''ABCDEFGHIJKLMNOPQRSTUVWXYZ'' ''abcdefghijklmnopqrstuvwxyz'') c of
        None \<Rightarrow> c
      | Some d \<Rightarrow> d)"

definition lower :: "string \<Rightarrow> string" where
  "lower x = map lower_char x"

text \<open>
  \<^verbatim>\<open>df_eval = nb.dataframe.transpose()\<close>,
  \<^verbatim>\<open>df_eval = df_eval.rename(columns=df_eval.iloc[0]).drop(['name', 'type', 'filename'])\<close>,
  \<^verbatim>\<open>df_eval.columns = [x.lower() for x in list(df_eval.columns)]\<close>:
  the transposed frame has one column per record, named after the record; of its rows
  only \<^verbatim>\<open>value\<close> is kept; the names are lower-cased. Two records of one name give two
  columns of one name.
\<close>

definition df_eval :: "nb_record list \<Rightarrow> frame" where
  "df_eval nb = map (\<lambda>r. (lower (rec_name r), rec_value r)) nb"

text \<open>
  \<^verbatim>\<open>df_eval[name].item()\<close>. No column of that name: pandas raises KeyError. One column:
  the selection is a Series of length one and \<^verbatim>\<open>.item()\<close> is its element. Several
  columns of that name: the selection is a DataFrame, which has no \<^verbatim>\<open>item\<close>.
\<close>

definition column_item :: "frame \<Rightarrow> string \<Rightarrow> error + pyval" where
  "column_item df name =
     (case filter (\<lambda>c. fst c = name) df of
        [] \<Rightarrow> Inl (KeyError name)
      | [c] \<Rightarrow> Inr (snd c)
      | _ \<Rightarrow> Inl (AttributeError ''item''))"

subsection \<open>Building the row of one run\<close>

text \<open>
  The values of the dict literal passed to \<^verbatim>\<open>pd.DataFrame(..., index=[0])\<close> are of two
  kinds: a variable or constant (\<^verbatim>\<open>data_size\<close>, \<^verbatim>\<open>algorithm\<close>, \<^verbatim>\<open>k\<close>, \<^verbatim>\<open>np.nan\<close>), or a
  read \<^verbatim>\<open>df_eval[name].item()\<close>.
\<close>

datatype cell_expr = Const pyval | Item string

text \<open>Python evaluates the entries in the order written; the first read that raises ends it.\<close>

fun DataFrame :: "frame \<Rightarrow> (string \<times> cell_expr) list \<Rightarrow> error + frame" where
  "DataFrame df [] = Inr []"
| "DataFrame df ((col, Const v) # es) =
     (case DataFrame df es of Inl e \<Rightarrow> Inl e | Inr row \<Rightarrow> Inr ((col, v) # row))"
| "DataFrame df ((col, Item name) # es) =
     (case column_item df name of
        Inl e \<Rightarrow> Inl e
      | Inr v \<Rightarrow> (case DataFrame df es of Inl e \<Rightarrow> Inl e | Inr row \<Rightarrow> Inr ((col, v) # row)))"

text \<open>The dict of the branch \<^verbatim>\<open>if algorithm in ["als", "svd", "fast"]\<close>.\<close>

definition rating_dict :: "string \<Rightarrow> string \<Rightarrow> int \<Rightarrow> (string \<times> cell_expr) list" where
  "rating_dict data_size algorithm top_k =
     [(''Data'', Const (Text data_size)),
      (''Algo'', Const (Text algorithm)),
      (''K'', Const (Integer top_k)),
      (''MAP'', Item ''map''),
      (''nDCG@k'', Item ''ndcg''),
      (''Precision@k'', Item ''precision''),
      (''Recall@k'', Item ''recall''),
      (''RMSE'', Item ''rmse''),
      (''MAE'', Item ''mae''),
      (''R2'', Item ''rsquared''),
      (''Explained Variance'', Item ''exp_var''),
      (''Train time'', Item ''train_time''),
      (''Test time'', Item ''test_time'')]"

text \<open>The dict of the branch \<^verbatim>\<open>elif algorithm in ["sar", "rbm", "ncf"]\<close>.\<close>

definition ranking_dict :: "string \<Rightarrow> string \<Rightarrow> int \<Rightarrow> (string \<times> cell_expr) list" where
  "ranking_dict data_size algorithm top_k =
     [(''Data'', Const (Text data_size)),
      (''Algo'', Const (Text algorithm)),
      (''K'', Const (Integer top_k)),
      (''MAP'', Item ''map''),
      (''nDCG@k'', Item ''ndcg''),
      (''Precision@k'', Item ''precision''),
      (''Recall@k'', Item ''recall''),
      (''RMSE'', Const NaN),
      (''MAE'', Const NaN),
      (''R2'', Const NaN),
      (''Explained Variance'', Const NaN),
      (''Train time'', Item ''train_time''),
      (''Test time'', Item ''test_time'')]"

definition rating_algos :: "string list" where
  "rating_algos = [''als'', ''svd'', ''fast'']"

definition ranking_algos :: "string list" where
  "ranking_algos = [''sar'', ''rbm'', ''ncf'']"

text \<open>The \<^verbatim>\<open>if\<close>/\<^verbatim>\<open>elif\<close>/\<^verbatim>\<open>else\<close> that assigns \<^verbatim>\<open>df_result\<close>.\<close>

definition df_result :: "frame \<Rightarrow> string \<Rightarrow> string \<Rightarrow> int \<Rightarrow> error + frame" where
  "df_result df data_size algorithm top_k =
     (if algorithm \<in> set rating_algos then DataFrame df (rating_dict data_size algorithm top_k)
      else if algorithm \<in> set ranking_algos then DataFrame df (ranking_dict data_size algorithm top_k)
      else Inl (ValueError algorithm))"

subsection \<open>The sweep\<close>

text \<open>
  What lies outside the notebook: \<^verbatim>\<open>pm.execute_notebook(path, output_path, parameters =
  dict(TOP_K=k, MOVIELENS_DATA_SIZE=data_size))\<close> followed by
  \<^verbatim>\<open>pm.read_notebook(output_path)\<close> and its \<^verbatim>\<open>.dataframe\<close>. The outcome of the
  \<open>n\<close>-th execution of the sweep (counted from 0) on a path and the two parameters is
  either the text of the exception raised or the records of the executed notebook.
\<close>

type_synonym papermill = "nat \<Rightarrow> string \<Rightarrow> int \<Rightarrow> string \<Rightarrow> string + nb_record list"

text \<open>
  The state the loop changes: the number of notebooks executed so far, and
  \<^verbatim>\<open>df_results\<close>, the rows appended so far (\<^verbatim>\<open>ignore_index=True\<close>: numbered in order).
\<close>

record sweep_state =
  executed :: nat
  df_results :: "frame list"

text \<open>
  The body of the inner loop. The result is the exception that left it, if any, and
  the state at that moment.
\<close>

definition loop_body ::
  "(string \<rightharpoonup> string) \<Rightarrow> papermill \<Rightarrow> int \<Rightarrow> string \<Rightarrow> string \<Rightarrow> sweep_state
     \<Rightarrow> error option \<times> sweep_state" where
  "loop_body nbs pm top_k data_size algorithm s =
     (case nbs algorithm of
        None \<Rightarrow> (Some (KeyError algorithm), s)
      | Some path \<Rightarrow>
          (case pm (executed s) path top_k data_size of
             Inl msg \<Rightarrow> (Some (PapermillError msg), s\<lparr>executed := executed s + 1\<rparr>)
           | Inr nb \<Rightarrow>
               (case df_result (df_eval nb) data_size algorithm top_k of
                  Inl e \<Rightarrow> (Some e, s\<lparr>executed := executed s + 1\<rparr>)
                | Inr row \<Rightarrow>
                    (None, s\<lparr>executed := executed s + 1,
                             df_results := df_results s @ [row]\<rparr>))))"

text \<open>\<^verbatim>\<open>for algorithm in algorithms\<close>\<close>

fun for_algorithm ::
  "(string \<rightharpoonup> string) \<Rightarrow> papermill \<Rightarrow> int \<Rightarrow> string \<Rightarrow> string list \<Rightarrow> sweep_state
     \<Rightarrow> error option \<times> sweep_state" where
  "for_algorithm nbs pm top_k data_size [] s = (None, s)"
| "for_algorithm nbs pm top_k data_size (algorithm # rest) s =
     (case loop_body nbs pm top_k data_size algorithm s of
        (Some e, s') \<Rightarrow> (Some e, s')
      | (None, s') \<Rightarrow> for_algorithm nbs pm top_k data_size rest s')"

text \<open>\<^verbatim>\<open>for data_size in data_sizes\<close>\<close>

fun for_data_size ::
  "(string \<rightharpoonup> string) \<Rightarrow> papermill \<Rightarrow> int \<Rightarrow> string list \<Rightarrow> string list \<Rightarrow> sweep_state
     \<Rightarrow> error option \<times> sweep_state" where
  "for_data_size nbs pm top_k [] algos s = (None, s)"
| "for_data_size nbs pm top_k (data_size # rest) algos s =
     (case for_algorithm nbs pm top_k data_size algos s of
        (Some e, s') \<Rightarrow> (Some e, s')
      | (None, s') \<Rightarrow> for_data_size nbs pm top_k rest algos s')"

text \<open>The sweep cell: \<^verbatim>\<open>df_results = pd.DataFrame()\<close>, then the two loops.\<close>

definition sweep ::
  "(string \<rightharpoonup> string) \<Rightarrow> papermill \<Rightarrow> int \<Rightarrow> string list \<Rightarrow> string list
     \<Rightarrow> error option \<times> sweep_state" where
  "sweep nbs pm top_k sizes algos =
     for_data_size nbs pm top_k sizes algos \<lparr>executed = 0, df_results = []\<rparr>"

subsection \<open>Clean up\<close>

text \<open>
  The scratch directory \<^verbatim>\<open>temp_path\<close>, as the file system has it: missing; present and
  removable; or present with a removal that fails with the given errno.
\<close>

datatype dir_state = Missing | Present | Stuck int

definition ENOENT :: int where
  "ENOENT = 2"

text \<open>
  \<^verbatim>\<open>shutil.rmtree(temp_path)\<close>: the errno of the OSError it raises, if any, and the
  directory afterwards.
\<close>

fun rmtree :: "dir_state \<Rightarrow> int option \<times> dir_state" where
  "rmtree Missing = (Some ENOENT, Missing)"
| "rmtree Present = (None, Missing)"
| "rmtree (Stuck n) = (Some n, Stuck n)"

text \<open>
  The names bound in the kernel when the last cell runs: those of the import cell
  (\<^verbatim>\<open>import sys\<close>, \<^verbatim>\<open>import os\<close>, \<^verbatim>\<open>import shutil\<close>, \<^verbatim>\<open>import tempfile\<close>,
  \<^verbatim>\<open>import pandas as pd\<close>, \<^verbatim>\<open>from matplotlib import pyplot as plt\<close>,
  \<^verbatim>\<open>import numpy as np\<close>, \<^verbatim>\<open>import seaborn as sns\<close>, \<^verbatim>\<open>import papermill as pm\<close>,
  \<^verbatim>\<open>import pyspark\<close>) and the variables the cells assign.
\<close>

definition notebook_globals :: "string list" where
  "notebook_globals =
     [''sys'', ''os'', ''shutil'', ''tempfile'', ''pd'', ''plt'', ''np'', ''sns'', ''pm'',
      ''pyspark'',
      ''temp_path'', ''output_path'', ''k'', ''data_sizes'', ''algorithms'', ''notebooks'',
      ''df_results'', ''data_size'', ''algorithm'', ''nb'', ''df_eval'', ''df_result'']"

text \<open>
  The last cell:
  \<^verbatim>\<open>
  try:
      shutil.rmtree(temp_path)
  except OSError as exc:
      if exc.errno != errno.ENOENT:
          raise
  \<close>
  The handler's test reads the global name \<^verbatim>\<open>errno\<close>; a name that is not bound raises
  NameError there.
\<close>

definition cleanup :: "string list \<Rightarrow> dir_state \<Rightarrow> error option \<times> dir_state" where
  "cleanup globals d =
     (case rmtree d of
        (None, d') \<Rightarrow> (None, d')
      | (Some n, d') \<Rightarrow>
          (if ''errno'' \<notin> set globals then (Some (NameError ''errno''), d')
           else if n \<noteq> ENOENT then (Some (OSError n), d')
           else (None, d')))"

subsection \<open>The notebook, run from top to bottom\<close>

text \<open>
  The cells run in order and an exception that leaves a cell ends the run: the cells
  after it are not executed. \<open>d\<close> is the scratch directory that
  \<^verbatim>\<open>temp_path = tempfile.mkdtemp()\<close> created, as it is when the sweep cell is left.
\<close>

record run_result =
  raised :: "error option"
  temp_dir :: dir_state
  table :: "frame list"

definition run_all :: "papermill \<Rightarrow> dir_state \<Rightarrow> run_result" where
  "run_all pm d =
     (case sweep notebooks pm k data_sizes algorithms of
        (Some e, s) \<Rightarrow> \<lparr>raised = Some e, temp_dir = d, table = df_results s\<rparr>
      | (None, s) \<Rightarrow>
          (case cleanup notebook_globals d of
             (r, d') \<Rightarrow> \<lparr>raised = r, temp_dir = d', table = df_results s\<rparr>))"

subsection \<open>Observations on rows and dicts\<close>

text \<open>The (data size, algorithm) pair a row of the table stands for.\<close>

definition data_algo :: "frame \<Rightarrow> (string \<times> string) option" where
  "data_algo row =
     (case (map_of row ''Data'', map_of row ''Algo'') of
        (Some (Text d), Some (Text a)) \<Rightarrow> Some (d, a)
      | _ \<Rightarrow> None)"


subsection \<open>Concrete environments\<close>

text \<open>
  Executed notebooks and papermill behaviours on which the statements below are
  evaluated: a notebook that records all ten metrics, the same with other letter case
  in the names, one that records the six ranking and timing values only, and a
  papermill whose every execution raises.
\<close>

definition metric :: "string \<Rightarrow> real \<Rightarrow> nb_record" where
  "metric name x =
     \<lparr>rec_name = name, rec_value = Number x, rec_type = ''record'',
      rec_filename = ''output.ipynb''\<rparr>"

definition nb_rating :: "nb_record list" where
  "nb_rating =
     [metric ''map'' 0.11, metric ''ndcg'' 0.38, metric ''precision'' 0.33,
      metric ''recall'' 0.18, metric ''rmse'' 0.96, metric ''mae'' 0.75,
      metric ''rsquared'' 0.27, metric ''exp_var'' 0.28,
      metric ''train_time'' 4.5, metric ''test_time'' 2.5]"

definition nb_capitals :: "nb_record list" where
  "nb_capitals =
     [metric ''MAP'' 0.11, metric ''nDCG'' 0.38, metric ''Precision'' 0.33,
      metric ''Recall'' 0.18, metric ''RMSE'' 0.96, metric ''MAE'' 0.75,
      metric ''RSquared'' 0.27, metric ''Exp_Var'' 0.28,
      metric ''Train_Time'' 4.5, metric ''test_time'' 2.5]"


definition pm_rating :: papermill where
  "pm_rating n path top_k data_size = Inr nb_rating"


definition pm_failing :: papermill where
  "pm_failing n path top_k data_size = Inl ''PapermillExecutionError''"


definition s0 :: sweep_state where
  "s0 = \<lparr>executed = 0, df_results = []\<rparr>"

section \<open>Properties\<close>

subsection \<open>One run\<close>

lemma loop_body_None:
  assumes "loop_body nbs pm top_k ds a s = (None, s')"
  shows "\<exists>path nb row. nbs a = Some path \<and> pm (executed s) path top_k ds = Inr nb
           \<and> df_result (df_eval nb) ds a top_k = Inr row
           \<and> s' = s\<lparr>executed := executed s + 1, df_results := df_results s @ [row]\<rparr>"
  using assms by (auto simp: loop_body_def split: option.splits sum.splits)

lemma loop_body_Some_rows:
  assumes "loop_body nbs pm top_k ds a s = (Some e, s')"
  shows "df_results s' = df_results s"
  using assms by (auto simp: loop_body_def split: option.splits sum.splits)



lemma ranking_row:
  assumes "DataFrame df (ranking_dict ds a top_k) = Inr row"
  shows "\<exists>m n p r tr te.
           column_item df ''map'' = Inr m \<and> column_item df ''ndcg'' = Inr n
         \<and> column_item df ''precision'' = Inr p \<and> column_item df ''recall'' = Inr r
         \<and> column_item df ''train_time'' = Inr tr \<and> column_item df ''test_time'' = Inr te
         \<and> row = [(''Data'', Text ds), (''Algo'', Text a), (''K'', Integer top_k),
                  (''MAP'', m), (''nDCG@k'', n), (''Precision@k'', p), (''Recall@k'', r),
                  (''RMSE'', NaN), (''MAE'', NaN), (''R2'', NaN), (''Explained Variance'', NaN),
                  (''Train time'', tr), (''Test time'', te)]"
  using assms unfolding ranking_dict_def
  by (auto split: sum.splits)

lemma rating_row:
  assumes "DataFrame df (rating_dict ds a top_k) = Inr row"
  shows "\<exists>m n p r rm ma r2 ev tr te.
           column_item df ''map'' = Inr m \<and> column_item df ''ndcg'' = Inr n
         \<and> column_item df ''precision'' = Inr p \<and> column_item df ''recall'' = Inr r
         \<and> column_item df ''rmse'' = Inr rm \<and> column_item df ''mae'' = Inr ma
         \<and> column_item df ''rsquared'' = Inr r2 \<and> column_item df ''exp_var'' = Inr ev
         \<and> column_item df ''train_time'' = Inr tr \<and> column_item df ''test_time'' = Inr te
         \<and> row = [(''Data'', Text ds), (''Algo'', Text a), (''K'', Integer top_k),
                  (''MAP'', m), (''nDCG@k'', n), (''Precision@k'', p), (''Recall@k'', r),
                  (''RMSE'', rm), (''MAE'', ma), (''R2'', r2), (''Explained Variance'', ev),
                  (''Train time'', tr), (''Test time'', te)]"
  using assms unfolding rating_dict_def
  by (auto split: sum.splits)

subsection \<open>The concrete environments, evaluated\<close>

lemma df_eval_rating: "df_eval nb_rating =
  [(''map'', Number 0.11), (''ndcg'', Number 0.38), (''precision'', Number 0.33),
   (''recall'', Number 0.18), (''rmse'', Number 0.96), (''mae'', Number 0.75),
   (''rsquared'', Number 0.27), (''exp_var'', Number 0.28),
   (''train_time'', Number 4.5), (''test_time'', Number 2.5)]"
  by (simp add: df_eval_def nb_rating_def metric_def lower_def lower_char_def)

lemma df_eval_capitals: "df_eval nb_capitals = df_eval nb_rating"
  by (simp add: df_eval_def nb_capitals_def nb_rating_def metric_def lower_def lower_char_def)



subsection \<open>Rows of the ranking-only algorithms\<close>




subsection \<open>Rows of the rating-capable algorithms\<close>





subsection \<open>Missing records\<close>






subsection \<open>Letter case of record names\<close>

lemma df_eval_case:
  assumes "list_all2 (\<lambda>r1 r2. lower (rec_name r1) = lower (rec_name r2) \<and> rec_value r1 = rec_value r2) nb1 nb2"
  shows "df_eval nb1 = df_eval nb2"
  using assms by (induction rule: list_all2_induct) (simp_all add: df_eval_def)

lemma lower_char_idem: "lower_char (lower_char c) = lower_char c"
  by (auto simp: lower_char_def split: option.splits if_splits)

lemma lower_idem: "lower (lower x) = lower x"
  by (simp add: lower_def lower_char_idem)

text \<open>
  Claim C9. Reading a record by name does not depend on letter case: when the records
  of two executed notebooks agree one by one in value and in name up to letter case
  (so in particular when one has the names exactly as the dicts read them and the
  other differs from it in letter case only), every read \<^verbatim>\<open>df_eval[name].item()\<close> and
  the whole row construction give the same result for both.
\<close>

theorem field_names_case_insensitive:
  assumes "list_all2 (\<lambda>r1 r2. lower (rec_name r1) = lower (rec_name r2) \<and> rec_value r1 = rec_value r2) nb1 nb2"
  shows "column_item (df_eval nb1) name = column_item (df_eval nb2) name
       \<and> df_result (df_eval nb1) data_size algorithm top_k
           = df_result (df_eval nb2) data_size algorithm top_k"
  using df_eval_case [OF assms] by simp

lemma capitals_match:
  "list_all2 (\<lambda>r1 r2. lower (rec_name r1) = lower (rec_name r2) \<and> rec_value r1 = rec_value r2) nb_capitals nb_rating"
  by (simp add: nb_capitals_def nb_rating_def metric_def lower_def lower_char_def)

lemma als_row_exact:
  "df_result (df_eval nb_rating) ''100k'' ''als'' k =
     Inr [(''Data'', Text ''100k''), (''Algo'', Text ''als''), (''K'', Integer 10),
          (''MAP'', Number 0.11), (''nDCG@k'', Number 0.38), (''Precision@k'', Number 0.33),
          (''Recall@k'', Number 0.18), (''RMSE'', Number 0.96), (''MAE'', Number 0.75),
          (''R2'', Number 0.27), (''Explained Variance'', Number 0.28),
          (''Train time'', Number 4.5), (''Test time'', Number 2.5)]"
  by (simp add: df_eval_rating df_result_def rating_algos_def rating_dict_def column_item_def k_def)

theorem field_names_case_insensitive_witness:
  "list_all2 (\<lambda>r1 r2. lower (rec_name r1) = lower (rec_name r2) \<and> rec_value r1 = rec_value r2)
     nb_capitals nb_rating
   \<and> column_item (df_eval nb_capitals) ''rsquared'' = column_item (df_eval nb_rating) ''rsquared''
   \<and> df_result (df_eval nb_capitals) ''100k'' ''als'' k =
     Inr [(''Data'', Text ''100k''), (''Algo'', Text ''als''), (''K'', Integer 10),
          (''MAP'', Number 0.11), (''nDCG@k'', Number 0.38), (''Precision@k'', Number 0.33),
          (''Recall@k'', Number 0.18), (''RMSE'', Number 0.96), (''MAE'', Number 0.75),
          (''R2'', Number 0.27), (''Explained Variance'', Number 0.28),
          (''Train time'', Number 4.5), (''Test time'', Number 2.5)]"
  using field_names_case_insensitive [OF capitals_match, of "''rsquared''" "''100k''" "''als''" k]
    capitals_match als_row_exact
  by simp

subsection \<open>Clean up and the scratch directory\<close>

text \<open>
  Claim C2 says that cleanup completes without an error when the scratch directory is
  absent. The cell as written does not: \<^verbatim>\<open>shutil.rmtree\<close> raises the OSError with errno
  ENOENT, and the handler's test \<^verbatim>\<open>exc.errno != errno.ENOENT\<close> reads the name
  \<^verbatim>\<open>errno\<close>, which no cell imports. The cleanup ends with NameError.
\<close>

theorem cleanup_missing_dir_raises:
  "cleanup notebook_globals Missing = (Some (NameError ''errno''), Missing)"
  by (simp add: cleanup_def notebook_globals_def)

text \<open>
  Every failed removal ends the cell as written with that NameError; with \<^verbatim>\<open>errno\<close>
  bound, a missing directory would be tolerated and any other failure re-raised.
\<close>

lemma cleanup_unbound_errno:
  assumes "''errno'' \<notin> set globals" and "d \<noteq> Present"
  shows "fst (cleanup globals d) = Some (NameError ''errno'')"
  using assms by (cases d) (simp_all add: cleanup_def)

lemma cleanup_bound_errno:
  assumes "''errno'' \<in> set globals"
  shows "cleanup globals Missing = (None, Missing)"
    and "n \<noteq> ENOENT \<Longrightarrow> cleanup globals (Stuck n) = (Some (OSError n), Stuck n)"
  using assms by (simp_all add: cleanup_def)

lemma cleanup_Present: "cleanup globals Present = (None, Missing)"
  by (simp add: cleanup_def)

lemma sweep_failing:
  "sweep notebooks pm_failing k data_sizes algorithms
     = (Some (PapermillError ''PapermillExecutionError''), \<lparr>executed = 1, df_results = []\<rparr>)"
  by (simp add: sweep_def notebooks_def pm_failing_def data_sizes_def algorithms_def loop_body_def)

text \<open>
  Claim C3, as stated, has the scratch directory gone after the sweep whether it
  succeeded or failed. When a notebook execution raises, the run ends in the sweep
  cell, the clean-up cell is not executed, and the directory is still there.
\<close>

theorem cleanup_not_reached_counterexample:
  "raised (run_all pm_failing Present) = Some (PapermillError ''PapermillExecutionError'')
   \<and> temp_dir (run_all pm_failing Present) = Present"
  by (simp add: run_all_def sweep_failing)

text \<open>
  Claim C3, amended. When every run of the sweep succeeded, the clean-up cell runs
  and, the directory being removable or already missing, the scratch directory no
  longer exists afterwards. When the sweep raised, the notebook run ends with that
  exception and the scratch directory is left as it was.
\<close>

theorem scratch_dir_after_run:
  "(fst (sweep notebooks pm k data_sizes algorithms) = None \<and> d \<in> {Present, Missing}
      \<longrightarrow> temp_dir (run_all pm d) = Missing)
   \<and> (fst (sweep notebooks pm k data_sizes algorithms) \<noteq> None
      \<longrightarrow> temp_dir (run_all pm d) = d
          \<and> raised (run_all pm d) = fst (sweep notebooks pm k data_sizes algorithms))"
  by (cases "sweep notebooks pm k data_sizes algorithms")
     (auto simp: run_all_def cleanup_def split: option.splits prod.splits)

subsection \<open>The loops\<close>

lemma for_algorithm_ok:
  assumes "\<And>a s. a \<in> set algos \<Longrightarrow> fst (loop_body nbs pm top_k ds a s) = None"
  shows "fst (for_algorithm nbs pm top_k ds algos s) = None"
  using assms
proof (induction algos arbitrary: s)
  case Nil
  then show ?case by simp
next
  case (Cons a algos)
  obtain r s' where b: "loop_body nbs pm top_k ds a s = (r, s')"
    by (cases "loop_body nbs pm top_k ds a s")
  with Cons.prems [of a s] have "r = None" by simp
  with b Cons show ?case by simp
qed

lemma for_data_size_ok:
  assumes "\<And>ds a s. ds \<in> set sizes \<Longrightarrow> a \<in> set algos \<Longrightarrow> fst (loop_body nbs pm top_k ds a s) = None"
  shows "fst (for_data_size nbs pm top_k sizes algos s) = None"
  using assms
proof (induction sizes arbitrary: s)
  case Nil
  then show ?case by simp
next
  case (Cons ds sizes)
  obtain r s' where b: "for_algorithm nbs pm top_k ds algos s = (r, s')"
    by (cases "for_algorithm nbs pm top_k ds algos s")
  have "fst (for_algorithm nbs pm top_k ds algos s) = None"
    by (rule for_algorithm_ok) (simp add: Cons.prems)
  with b have "r = None" by simp
  with b Cons show ?case by simp
qed

lemma loop_body_rating_ok:
  assumes "a \<in> set algorithms"
  shows "fst (loop_body notebooks pm_rating top_k ds a s) = None"
proof -
  from assms consider "a = ''als''" | "a = ''sar''" | "a = ''svd''" | "a = ''fast''"
    | "a = ''ncf''" | "a = ''rbm''"
    by (auto simp: algorithms_def)
  then show ?thesis
    by cases
      (simp_all add: loop_body_def notebooks_def pm_rating_def df_eval_rating df_result_def
        rating_algos_def ranking_algos_def rating_dict_def ranking_dict_def column_item_def)
qed

lemma sweep_rating_ok: "fst (sweep notebooks pm_rating k data_sizes algorithms) = None"
  unfolding sweep_def by (rule for_data_size_ok) (rule loop_body_rating_ok)

theorem scratch_dir_after_run_witness:
  "fst (sweep notebooks pm_rating k data_sizes algorithms) = None
   \<and> Present \<in> {Present, Missing}
   \<and> temp_dir (run_all pm_rating Present) = Missing
   \<and> fst (sweep notebooks pm_failing k data_sizes algorithms) \<noteq> None
   \<and> temp_dir (run_all pm_failing (Stuck 13)) = Stuck 13"
  using scratch_dir_after_run [of pm_rating Present] scratch_dir_after_run [of pm_failing "Stuck 13"]
    sweep_rating_ok sweep_failing
  by simp

lemma df_result_data_algo:
  assumes "df_result df ds a top_k = Inr row"
  shows "data_algo row = Some (ds, a)"
proof -
  from assms consider "DataFrame df (rating_dict ds a top_k) = Inr row"
    | "DataFrame df (ranking_dict ds a top_k) = Inr row"
    by (auto simp: df_result_def split: if_splits)
  then show ?thesis
  proof cases
    case 1
    from rating_row [OF 1] show ?thesis by (auto simp: data_algo_def)
  next
    case 2
    from ranking_row [OF 2] show ?thesis by (auto simp: data_algo_def)
  qed
qed

lemma loop_body_appends:
  assumes "loop_body nbs pm top_k ds a s = (None, s')"
  shows "\<exists>row. df_results s' = df_results s @ [row] \<and> data_algo row = Some (ds, a)"
proof -
  from loop_body_None [OF assms] obtain row where
    "\<exists>nb. df_result (df_eval nb) ds a top_k = Inr row"
    and "s' = s\<lparr>executed := executed s + 1, df_results := df_results s @ [row]\<rparr>"
    by blast
  then show ?thesis
    using df_result_data_algo by fastforce
qed

lemma for_algorithm_rows:
  assumes "for_algorithm nbs pm top_k ds algos s = (None, s')"
  shows "map data_algo (df_results s')
           = map data_algo (df_results s) @ map (\<lambda>a. Some (ds, a)) algos"
  using assms
proof (induction algos arbitrary: s)
  case Nil
  then show ?case by simp
next
  case (Cons a algos)
  obtain r s1 where b: "loop_body nbs pm top_k ds a s = (r, s1)"
    by (cases "loop_body nbs pm top_k ds a s")
  with Cons.prems have r: "r = None" and rest: "for_algorithm nbs pm top_k ds algos s1 = (None, s')"
    by (auto split: option.splits)
  from b r loop_body_appends obtain row where
    "df_results s1 = df_results s @ [row]" "data_algo row = Some (ds, a)"
    by blast
  with Cons.IH [OF rest] show ?case by simp
qed

lemma for_data_size_rows:
  assumes "for_data_size nbs pm top_k sizes algos s = (None, s')"
  shows "map data_algo (df_results s')
           = map data_algo (df_results s) @ map Some (List.product sizes algos)"
  using assms
proof (induction sizes arbitrary: s)
  case Nil
  then show ?case by simp
next
  case (Cons ds sizes)
  obtain r s1 where b: "for_algorithm nbs pm top_k ds algos s = (r, s1)"
    by (cases "for_algorithm nbs pm top_k ds algos s")
  with Cons.prems have r: "r = None"
    and rest: "for_data_size nbs pm top_k sizes algos s1 = (None, s')"
    by (auto split: option.splits)
  from b r have "map data_algo (df_results s1)
           = map data_algo (df_results s) @ map (\<lambda>a. Some (ds, a)) algos"
    using for_algorithm_rows by blast
  with Cons.IH [OF rest] show ?case by (simp add: comp_def)
qed

text \<open>
  Claim C6. When no iteration of the sweep raised, \<^verbatim>\<open>df_results\<close> has as many rows as
  there are data sizes times algorithms; with the configured lists, twelve.
\<close>

theorem row_count:
  "(sweep nbs pm top_k sizes algos = (None, s)
      \<longrightarrow> length (df_results s) = length sizes * length algos)
   \<and> (sweep notebooks pm k data_sizes algorithms = (None, s')
      \<longrightarrow> length (df_results s') = 12)"
proof -
  have g: "length (df_results t) = length xs * length ys"
    if "sweep nbs' pm' kk xs ys = (None, t)" for nbs' pm' kk xs ys t
  proof -
    from that have "map data_algo (df_results t) = map Some (List.product xs ys)"
      using for_data_size_rows [of nbs' pm' kk xs ys "\<lparr>executed = 0, df_results = []\<rparr>" t]
      by (simp add: sweep_def)
    then have "length (map data_algo (df_results t)) = length (map Some (List.product xs ys))"
      by simp
    then show ?thesis by (simp add: length_product)
  qed
  have "length data_sizes * length algorithms = 12"
    by (simp add: data_sizes_def algorithms_def)
  with g show ?thesis by metis
qed

theorem row_count_witness:
  "sweep notebooks pm_rating k data_sizes algorithms
     = (None, snd (sweep notebooks pm_rating k data_sizes algorithms))
   \<and> length (df_results (snd (sweep notebooks pm_rating k data_sizes algorithms)))
       = length data_sizes * length algorithms
   \<and> length (df_results (snd (sweep notebooks pm_rating k data_sizes algorithms))) = 12"
proof -
  have h: "sweep notebooks pm_rating k data_sizes algorithms
     = (None, snd (sweep notebooks pm_rating k data_sizes algorithms))"
    using sweep_rating_ok by (simp add: prod_eq_iff)
  from row_count [of notebooks pm_rating k data_sizes algorithms
      "snd (sweep notebooks pm_rating k data_sizes algorithms)"
      "snd (sweep notebooks pm_rating k data_sizes algorithms)"] h
  show ?thesis by simp
qed

text \<open>
  Claim C7. When no iteration of the sweep raised, the rows of \<^verbatim>\<open>df_results\<close> are, in
  order, those of the pairs (data size, algorithm) enumerated with the data sizes in
  the outer loop and the algorithms in the inner loop (\<open>List.product\<close>): row \<open>i\<close> has
  the Data and Algo of the \<open>i\<close>-th pair.
\<close>

theorem rows_in_sweep_order:
  assumes "sweep nbs pm top_k sizes algos = (None, s)"
  shows "map data_algo (df_results s) = map Some (List.product sizes algos)
       \<and> (\<forall>i < length (df_results s).
            data_algo (df_results s ! i) = Some (List.product sizes algos ! i))"
proof -
  from assms have m: "map data_algo (df_results s) = map Some (List.product sizes algos)"
    using for_data_size_rows [of nbs pm top_k sizes algos "\<lparr>executed = 0, df_results = []\<rparr>" s]
    by (simp add: sweep_def)
  have "data_algo (df_results s ! i) = Some (List.product sizes algos ! i)"
    if "i < length (df_results s)" for i
  proof -
    from m have l: "length (df_results s) = length (List.product sizes algos)"
      using length_map by metis
    from that have "data_algo (df_results s ! i) = map data_algo (df_results s) ! i"
      by simp
    also from m that l have "\<dots> = Some (List.product sizes algos ! i)"
      by simp
    finally show ?thesis .
  qed
  with m show ?thesis by blast
qed

theorem rows_in_sweep_order_witness:
  "sweep notebooks pm_rating k data_sizes algorithms
     = (None, snd (sweep notebooks pm_rating k data_sizes algorithms))
   \<and> map data_algo (df_results (snd (sweep notebooks pm_rating k data_sizes algorithms)))
       = [Some (''100k'', ''als''), Some (''100k'', ''sar''), Some (''100k'', ''svd''),
          Some (''100k'', ''fast''), Some (''100k'', ''ncf''), Some (''100k'', ''rbm''),
          Some (''1m'', ''als''), Some (''1m'', ''sar''), Some (''1m'', ''svd''),
          Some (''1m'', ''fast''), Some (''1m'', ''ncf''), Some (''1m'', ''rbm'')]"
proof -
  have h: "sweep notebooks pm_rating k data_sizes algorithms
     = (None, snd (sweep notebooks pm_rating k data_sizes algorithms))"
    using sweep_rating_ok by (simp add: prod_eq_iff)
  from rows_in_sweep_order [OF h] h show ?thesis
    by (simp add: data_sizes_def algorithms_def)
qed

subsection \<open>Identifiers outside the two families\<close>

text \<open>The keys of \<^verbatim>\<open>notebooks\<close> are exactly the six identifiers of the two family lists.\<close>

lemma notebooks_None:
  "notebooks a = None \<longleftrightarrow> a \<notin> set rating_algos \<and> a \<notin> set ranking_algos"
  by (auto simp: notebooks_def rating_algos_def ranking_algos_def)







text \<open>The exceptions of a row construction are those of the reads.\<close>

lemma DataFrame_errors:
  "DataFrame df es = Inl e \<Longrightarrow> (\<exists>n. e = KeyError n) \<or> e = AttributeError ''item''"
proof (induction df es rule: DataFrame.induct)
  case (1 df)
  then show ?case by simp
next
  case (2 df col v es)
  then show ?case by (auto split: sum.splits)
next
  case (3 df col name es)
  then show ?case
    by (auto simp: column_item_def split: sum.splits list.splits)
qed

lemma loop_body_no_ValueError:
  assumes "loop_body notebooks pm top_k ds a s = (Some e, s')"
  shows "e \<noteq> ValueError x"
proof (cases "notebooks a")
  case None
  with assms show ?thesis by (auto simp: loop_body_def)
next
  case (Some path)
  then have "a \<in> set rating_algos \<or> a \<in> set ranking_algos"
    using notebooks_None [of a] by auto
  then have "df_result df ds a top_k = Inl e' \<Longrightarrow> e' \<noteq> ValueError x" for df e'
    using DataFrame_errors by (fastforce simp: df_result_def split: if_splits)
  with assms Some show ?thesis
    by (auto simp: loop_body_def split: sum.splits)
qed

lemma for_algorithm_no_ValueError:
  "for_algorithm notebooks pm top_k ds algos s = (Some e, s') \<Longrightarrow> e \<noteq> ValueError x"
proof (induction algos arbitrary: s)
  case Nil
  then show ?case by simp
next
  case (Cons a algos)
  obtain r s1 where b: "loop_body notebooks pm top_k ds a s = (r, s1)"
    by (cases "loop_body notebooks pm top_k ds a s")
  show ?case
  proof (cases r)
    case None
    with b Cons show ?thesis by simp
  next
    case (Some e')
    with b Cons.prems have "e' = e" by simp
    with b Some loop_body_no_ValueError show ?thesis by blast
  qed
qed

lemma for_data_size_no_ValueError:
  "for_data_size notebooks pm top_k sizes algos s = (Some e, s') \<Longrightarrow> e \<noteq> ValueError x"
proof (induction sizes arbitrary: s)
  case Nil
  then show ?case by simp
next
  case (Cons ds sizes)
  obtain r s1 where b: "for_algorithm notebooks pm top_k ds algos s = (r, s1)"
    by (cases "for_algorithm notebooks pm top_k ds algos s")
  show ?case
  proof (cases r)
    case None
    with b Cons show ?thesis by simp
  next
    case (Some e')
    with b Cons.prems have "e' = e" by simp
    with b Some for_algorithm_no_ValueError show ?thesis by blast
  qed
qed

text \<open>
  Claim C10. With the configured list and mapping the \<^verbatim>\<open>else\<close> branch is never
  executed: every identifier of \<^verbatim>\<open>algorithms\<close> is in one of the two family lists; an
  identifier that is not a key of \<^verbatim>\<open>notebooks\<close> makes the iteration raise KeyError at
  the lookup, with the state untouched, before the dispatch on the family; and
  whatever the lists of data sizes and algorithms swept with this mapping, the sweep
  never ends with the ValueError of that branch.
\<close>

theorem value_error_branch_unreachable:
  "(\<forall>a \<in> set algorithms. a \<in> set rating_algos \<or> a \<in> set ranking_algos)
   \<and> (notebooks a = None \<longrightarrow>
        loop_body notebooks pm top_k data_size a s = (Some (KeyError a), s))
   \<and> fst (sweep notebooks pm top_k sizes algos) \<noteq> Some (ValueError x)"
proof -
  have 1: "\<forall>a \<in> set algorithms. a \<in> set rating_algos \<or> a \<in> set ranking_algos"
    by (simp add: algorithms_def rating_algos_def ranking_algos_def)
  have 2: "notebooks a = None \<longrightarrow>
        loop_body notebooks pm top_k data_size a s = (Some (KeyError a), s)"
    by (simp add: loop_body_def)
  have 3: "fst (sweep notebooks pm top_k sizes algos) \<noteq> Some (ValueError x)"
  proof
    assume "fst (sweep notebooks pm top_k sizes algos) = Some (ValueError x)"
    then have "sweep notebooks pm top_k sizes algos
                 = (Some (ValueError x), snd (sweep notebooks pm top_k sizes algos))"
      by (simp add: prod_eq_iff)
    then show False
      unfolding sweep_def using for_data_size_no_ValueError by blast
  qed
  from 1 2 3 show ?thesis by simp
qed

theorem value_error_branch_unreachable_witness:
  "''ncf'' \<in> set algorithms \<and> (''ncf'' \<in> set rating_algos \<or> ''ncf'' \<in> set ranking_algos)
   \<and> notebooks ''bpr'' = None
   \<and> loop_body notebooks pm_rating k ''1m'' ''bpr'' s0 = (Some (KeyError ''bpr''), s0)
   \<and> fst (sweep notebooks pm_rating k data_sizes (algorithms @ [''bpr'']))
        \<noteq> Some (ValueError ''bpr'')"
proof -
  have h1: "''ncf'' \<in> set algorithms" by (simp add: algorithms_def)
  have h2: "notebooks ''bpr'' = None" by (simp add: notebooks_def)
  from value_error_branch_unreachable
        [of "''bpr''" pm_rating k "''1m''" s0 data_sizes "algorithms @ [''bpr'']" "''bpr''"]
    h1 h2 show ?thesis
    by simp
qed

end
